theory Spec2Isabelle
  imports Main "HOL-Library.Word"
begin

section \<open>Data shared by the two endpoints and the gallery page\<close>

text \<open>
  Values thrown or rejected in the program. The store's and the network's errors are opaque
  to this code; the \<open>TypeError\<close> is the one JavaScript raises when a method is called on a
  value that does not have it.
\<close>

datatype error =
    StoreError string
  | NetworkError string
  | TypeError string
  | Error string

type_synonym byte = "8 word"

text \<open>A browser \<open>File\<close>: its \<open>name\<close>, its declared MIME \<open>type\<close> and its content.\<close>

record File =
  fname :: string
  ftype :: string
  content :: "byte list"

text \<open>
  The fields the endpoints copy out of a store object. \<open>descriptor\<close> is the shape the upload
  endpoint answers with; \<open>resource\<close> adds \<open>original_filename\<close>, which the store may leave out.
\<close>

record descriptor =
  public_id :: string
  secure_url :: string
  width :: "nat option"
  height :: "nat option"
  format :: "string option"
  bytes :: "nat option"
  created_at :: string

record resource = descriptor +
  original_filename :: "string option"

text \<open>
  JavaScript's \<open>a || b\<close> where \<open>a\<close> is a string that may be \<open>null\<close> or \<open>undefined\<close>:
  the empty string is falsy too.
\<close>

definition or_else :: "string option \<Rightarrow> string \<Rightarrow> string" where
  "or_else a b = (case a of None \<Rightarrow> b | Some s \<Rightarrow> if s = [] then b else s)"

section \<open>The HTTP surface of the server\<close>

datatype body =
    ErrorBody string
  | DescriptorBody descriptor
  | ImagesBody "resource list" nat

record response =
  status :: nat
  body :: body

text \<open>The \<open>images\<close> field of a body, empty when the body has none.\<close>

definition body_images :: "body \<Rightarrow> resource list" where
  "body_images b = (case b of ImagesBody imgs n \<Rightarrow> imgs | _ \<Rightarrow> [])"

record search_query =
  expression :: string
  sort_by :: "string \<times> string"
  max_results :: nat

record search_result =
  resources :: "resource list"
  total_count :: nat

record upload_options =
  resource_type :: string
  folder :: string

text \<open>What a handler does besides answering: calls of the store and lines on the console.\<close>

datatype server_event =
    SearchExecute search_query
  | UploadStream upload_options "byte list"
  | ConsoleError string error

subsection \<open>The list endpoint: \<open>GET\<close> of \<open>app/api/images/route.ts\<close>\<close>

text \<open>
  \<open>searchParams.get\<close> gives the first value of a name, or \<open>null\<close>. The query string is the
  ordered list of its pairs.
\<close>

definition searchParams_get :: "(string \<times> string) list \<Rightarrow> string \<Rightarrow> string option" where
  "searchParams_get searchParams k = map_of searchParams k"

text \<open>Line 10: \<open>const folder = searchParams.get('folder') || 'gallery'\<close>.\<close>

definition GET_folder :: "(string \<times> string) list \<Rightarrow> string" where
  "GET_folder searchParams = or_else (searchParams_get searchParams ''folder'') ''gallery''"

text \<open>Lines 13 to 16: the query built before \<open>execute\<close>.\<close>

definition GET_query :: "(string \<times> string) list \<Rightarrow> search_query" where
  "GET_query searchParams =
     \<lparr>expression = ''folder:'' @ GET_folder searchParams @ ''/*'',
      sort_by = (''created_at'', ''desc''),
      max_results = 500\<rparr>"

text \<open>Lines 19 to 28: the object built for each resource.\<close>

definition GET_image :: "resource \<Rightarrow> resource" where
  "GET_image r =
     \<lparr>public_id = public_id r,
      secure_url = secure_url r,
      width = width r,
      height = height r,
      format = format r,
      bytes = bytes r,
      created_at = created_at r,
      original_filename = Some (or_else (original_filename r) (public_id r))\<rparr>"

text \<open>
  The handler. \<open>execute\<close> is the store's search: it rejects with an error or resolves with
  a result. \<open>NextResponse.json\<close> without a status answers 200.
\<close>

definition GET ::
  "(search_query \<Rightarrow> error + search_result) \<Rightarrow> (string \<times> string) list
     \<Rightarrow> response \<times> server_event list" where
  "GET execute searchParams =
     (let q = GET_query searchParams in
      case execute q of
        Inr result \<Rightarrow>
          (\<lparr>status = 200,
            body = ImagesBody (map GET_image (resources result)) (total_count result)\<rparr>,
           [SearchExecute q])
      | Inl e \<Rightarrow>
          (\<lparr>status = 500, body = ErrorBody ''Failed to fetch images''\<rparr>,
           [SearchExecute q, ConsoleError ''Fetch images error:'' e]))"

subsection \<open>The upload endpoint: \<open>POST\<close> of \<open>app/api/upload/route.ts\<close>\<close>

text \<open>
  A multipart form is an ordered list of named entries, each a file or a string;
  \<open>formData.get\<close> gives the first entry of a name, or \<open>null\<close>. The cast \<open>as File\<close> checks
  nothing, so a string entry named \<open>file\<close> reaches the test \<open>!file\<close>: the empty string is
  falsy, any other string is truthy and has no \<open>arrayBuffer\<close> method.
\<close>

datatype form_value = FileValue File | StringValue string

definition formData_get :: "(string \<times> form_value) list \<Rightarrow> string \<Rightarrow> form_value option" where
  "formData_get formData k = map_of formData k"



text \<open>
  How the store's upload, called inside the promise executor of lines 24 to 39, can end:
  \<open>upload_stream(...)\<close> or \<open>.end(buffer)\<close> throws at once (the executor's throw rejects
  the promise and the callback is not run), or the callback is run with an error, or the
  callback is run with a result.
\<close>

datatype upload_outcome =
    Thrown error
  | CallbackError error
  | CallbackResult resource

definition POST_options :: upload_options where
  "POST_options = \<lparr>resource_type = ''auto'', folder = ''gallery''\<rparr>"

definition upload_failed :: response where
  "upload_failed = \<lparr>status = 500, body = ErrorBody ''Upload failed''\<rparr>"

text \<open>
  The handler. The request's body either fails to parse as a form (\<open>request.formData()\<close>
  rejects) or is a form. \<open>upload_stream\<close> is the store's upload. Only the callback logs
  \<open>Cloudinary error:\<close>; every failure reaches the \<open>catch\<close> of line 51.
\<close>

definition POST ::
  "(upload_options \<Rightarrow> byte list \<Rightarrow> upload_outcome) \<Rightarrow> error + (string \<times> form_value) list
     \<Rightarrow> response \<times> server_event list" where
  "POST upload_stream request =
     (case request of
        Inl e \<Rightarrow> (upload_failed, [ConsoleError ''Upload error:'' e])
      | Inr formData \<Rightarrow>
          (case formData_get formData ''file'' of
             None \<Rightarrow> (\<lparr>status = 400, body = ErrorBody ''No file provided''\<rparr>, [])
           | Some (StringValue s) \<Rightarrow>
               if s = [] then (\<lparr>status = 400, body = ErrorBody ''No file provided''\<rparr>, [])
               else (upload_failed,
                     [ConsoleError ''Upload error:'' (TypeError ''file.arrayBuffer is not a function'')])
           | Some (FileValue file) \<Rightarrow>
               (let buffer = content file in
                case upload_stream POST_options buffer of
                  Thrown e \<Rightarrow>
                    (upload_failed,
                     [UploadStream POST_options buffer,
                      ConsoleError ''Upload error:'' e])
                | CallbackError e \<Rightarrow>
                    (upload_failed,
                     [UploadStream POST_options buffer,
                      ConsoleError ''Cloudinary error:'' e,
                      ConsoleError ''Upload error:'' e])
                | CallbackResult result \<Rightarrow>
                    (\<lparr>status = 200,
                      body = DescriptorBody
                        \<lparr>public_id = public_id result,
                         secure_url = secure_url result,
                         width = width result,
                         height = height result,
                         format = format result,
                         bytes = bytes result,
                         created_at = created_at result\<rparr>\<rparr>,
                     [UploadStream POST_options buffer]))))"

section \<open>The gallery page\<close>

subsection \<open>Strings\<close>

text \<open>\<open>s.startsWith(t)\<close>.\<close>

fun startsWith :: "string \<Rightarrow> string \<Rightarrow> bool" where
  "startsWith s [] = True"
| "startsWith [] (d # t) = False"
| "startsWith (c # s) (d # t) = (c = d \<and> startsWith s t)"

text \<open>\<open>s.includes(t)\<close>: \<open>t\<close> starts at some position of \<open>s\<close>.\<close>

fun includes_str :: "string \<Rightarrow> string \<Rightarrow> bool" where
  "includes_str [] t = (t = [])"
| "includes_str (c # s) t = (startsWith (c # s) t \<or> includes_str s t)"

text \<open>\<open>s.split('/')\<close>: the pieces between the slashes, never an empty array.\<close>

fun split_slash :: "string \<Rightarrow> string list" where
  "split_slash [] = [[]]"
| "split_slash (c # s) =
     (if c = CHR ''/'' then [] # split_slash s
      else (case split_slash s of
              [] \<Rightarrow> [[c]]
            | p # ps \<Rightarrow> (c # p) # ps))"

text \<open>\<open>xs.pop()\<close> as a value: the last element, \<open>undefined\<close> for an empty array.\<close>

definition pop :: "string list \<Rightarrow> string option" where
  "pop xs = (if xs = [] then None else Some (last xs))"

subsection \<open>State and effects\<close>

datatype date = Date string

record UploadedImage =
  uid :: string
  url :: string
  publicId :: string
  originalName :: string
  uploadedAt :: date
  iwidth :: "nat option"
  iheight :: "nat option"
  iformat :: "string option"
  ibytes :: "nat option"

datatype view_mode = Grid | ListView

text \<open>The six \<open>useState\<close> cells of \<open>ImageUploadPage\<close>.\<close>

record page =
  images :: "UploadedImage list"
  uploading :: bool
  loading :: bool
  dragActive :: bool
  viewMode :: view_mode
  searchTerm :: string

definition initial_page :: page where
  "initial_page =
     \<lparr>images = [], uploading = False, loading = True, dragActive = False,
      viewMode = Grid, searchTerm = []\<rparr>"

text \<open>
  What the page does besides changing its state, in program order: the two kinds of
  request, the state setters it calls, console lines and alerts.
\<close>

datatype page_event =
    FetchImagesRequest string
  | UploadRequest File
  | SetUploading bool
  | SetLoading bool
  | SetImages "UploadedImage list"
  | SetDragActive bool
  | ConsoleErr string error
  | Alert string

text \<open>
  What \<open>fetch\<close> and \<open>response.json()\<close> give the page, by the HTTP surface of the two
  endpoints: the request is rejected (no response at all), or the response is not \<open>ok\<close>
  and its JSON has an \<open>error\<close> field or none, or it is \<open>ok\<close> and carries the payload.
\<close>

datatype 'a reply =
    Rejected error
  | NotOk "string option"
  | Ok 'a

subsection \<open>\<open>fetchImages\<close>\<close>

text \<open>Lines 38 to 48: the image built from one listed descriptor.\<close>

definition formatImage :: "resource \<Rightarrow> UploadedImage" where
  "formatImage img =
     \<lparr>uid = public_id img,
      url = secure_url img,
      publicId = public_id img,
      originalName =
        or_else (original_filename img)
          (or_else (pop (split_slash (public_id img))) ''Unknown''),
      uploadedAt = Date (created_at img),
      iwidth = width img,
      iheight = height img,
      iformat = format img,
      ibytes = bytes img\<rparr>"

text \<open>
  \<open>fetchImages\<close> catches everything it throws, so it always resolves; \<open>finally\<close> clears
  \<open>loading\<close> on both paths.
\<close>

definition fetchImages :: "resource list reply \<Rightarrow> page \<Rightarrow> page \<times> page_event list" where
  "fetchImages net st =
     (let st1 = st\<lparr>loading := True\<rparr>;
          start = [SetLoading True, FetchImagesRequest ''/api/images?folder=gallery''] in
      case net of
        Ok data_images \<Rightarrow>
          (let formattedImages = map formatImage data_images in
           (st1\<lparr>images := formattedImages, loading := False\<rparr>,
            start @ [SetImages formattedImages, SetLoading False]))
      | NotOk _ \<Rightarrow>
          (st1\<lparr>loading := False\<rparr>,
           start @ [ConsoleErr ''Error fetching images:'' (Error ''Failed to fetch images''),
                    Alert ''Failed to load images. Please refresh the page.'',
                    SetLoading False])
      | Rejected e \<Rightarrow>
          (st1\<lparr>loading := False\<rparr>,
           start @ [ConsoleErr ''Error fetching images:'' e,
                    Alert ''Failed to load images. Please refresh the page.'',
                    SetLoading False]))"

subsection \<open>\<open>uploadToCloudinary\<close> and \<open>handleFileUpload\<close>\<close>

text \<open>The promise one upload call settles to: rejected with an error, or an image.\<close>

definition uploadToCloudinary :: "(File \<Rightarrow> descriptor reply) \<Rightarrow> File \<Rightarrow> error + UploadedImage" where
  "uploadToCloudinary net file =
     (case net file of
        Rejected e \<Rightarrow> Inl e
      | NotOk errorData_error \<Rightarrow> Inl (Error (or_else errorData_error ''Upload failed''))
      | Ok data \<Rightarrow>
          Inr \<lparr>uid = public_id data,
               url = secure_url data,
               publicId = public_id data,
               originalName = fname file,
               uploadedAt = Date (created_at data),
               iwidth = width data,
               iheight = height data,
               iformat = format data,
               ibytes = bytes data\<rparr>)"

text \<open>
  The loop of lines 99 to 104, over the files from index \<open>i\<close> on: each call of
  \<open>uploadToCloudinary\<close> sends its request at once and adds its promise to the array.
\<close>

fun upload_loop ::
  "(File \<Rightarrow> descriptor reply) \<Rightarrow> File list
     \<Rightarrow> (error + UploadedImage) list \<times> page_event list" where
  "upload_loop net [] = ([], [])"
| "upload_loop net (file # files) =
     (let (uploadPromises, evs) = upload_loop net files in
      if startsWith (ftype file) ''image/''
      then (uploadToCloudinary net file # uploadPromises, UploadRequest file # evs)
      else (uploadPromises, evs))"

text \<open>
  \<open>Promise.all\<close>: resolves with all the values when every promise resolves, rejects when
  one rejects. Which rejection it reports when several reject is a matter of timing; the
  model takes the first in array order.
\<close>

fun Promise_all :: "(error + 'a) list \<Rightarrow> error + 'a list" where
  "Promise_all [] = Inr []"
| "Promise_all (Inl e # ps) = Inl e"
| "Promise_all (Inr v # ps) = (case Promise_all ps of Inl e \<Rightarrow> Inl e | Inr vs \<Rightarrow> Inr (v # vs))"

text \<open>
  \<open>files\<close> is a \<open>FileList\<close> or \<open>null\<close>. \<open>upload_net\<close> answers the upload requests,
  \<open>list_net\<close> the list request of the refresh.
\<close>

definition handleFileUpload ::
  "(File \<Rightarrow> descriptor reply) \<Rightarrow> resource list reply \<Rightarrow> File list option \<Rightarrow> page
     \<Rightarrow> page \<times> page_event list" where
  "handleFileUpload upload_net list_net files st =
     (case files of
        None \<Rightarrow> (st, [])
      | Some fs \<Rightarrow>
          if length fs = 0 then (st, [])
          else
            (let st1 = st\<lparr>uploading := True\<rparr>;
                 (uploadPromises, calls) = upload_loop upload_net fs in
             case Promise_all uploadPromises of
               Inr _ \<Rightarrow>
                 (let (st2, evs) = fetchImages list_net st1 in
                  (st2\<lparr>uploading := False\<rparr>,
                   [SetUploading True] @ calls @ evs @ [SetUploading False]))
             | Inl e \<Rightarrow>
                 (st1\<lparr>uploading := False\<rparr>,
                  [SetUploading True] @ calls @
                  [ConsoleErr ''Upload error:'' e,
                   Alert ''Upload failed. Please try again.'',
                   SetUploading False])))"

text \<open>
  \<open>handleDrop\<close>: the drop clears \<open>dragActive\<close> and hands the dropped files, a \<open>FileList\<close>,
  to \<open>handleFileUpload\<close>.
\<close>

definition handleDrop ::
  "(File \<Rightarrow> descriptor reply) \<Rightarrow> resource list reply \<Rightarrow> File list \<Rightarrow> page
     \<Rightarrow> page \<times> page_event list" where
  "handleDrop upload_net list_net dataTransfer_files st =
     (let (st', evs) =
            handleFileUpload upload_net list_net (Some dataTransfer_files)
              (st\<lparr>dragActive := False\<rparr>)
      in (st', SetDragActive False # evs))"

text \<open>The upload requests of a trace, and whether it holds a list request.\<close>

fun upload_calls :: "page_event list \<Rightarrow> File list" where
  "upload_calls [] = []"
| "upload_calls (UploadRequest f # evs) = f # upload_calls evs"
| "upload_calls (ev # evs) = upload_calls evs"

fun is_fetch :: "page_event \<Rightarrow> bool" where
  "is_fetch (FetchImagesRequest u) = True"
| "is_fetch ev = False"

subsection \<open>\<open>filteredImages\<close>\<close>

text \<open>
  \<open>String.prototype.toLowerCase\<close> is JavaScript's, not this program's: the filter is
  modelled over it, as the function \<open>toLowerCase\<close> from strings to strings that the
  runtime supplies.
\<close>

definition filteredImages :: "(string \<Rightarrow> string) \<Rightarrow> page \<Rightarrow> UploadedImage list" where
  "filteredImages toLowerCase st =
     filter (\<lambda>image.
        includes_str (toLowerCase (originalName image)) (toLowerCase (searchTerm st)) \<or>
        includes_str (toLowerCase (publicId image)) (toLowerCase (searchTerm st)))
       (images st)"

subsection \<open>\<open>formatFileSize\<close>\<close>

text \<open>
  A byte count is a natural number or \<open>undefined\<close>. The logarithms, the division and the
  rounding of lines 161 and 162 are taken exactly, not in binary floating point.
\<close>

definition sizes :: "string list" where
  "sizes = [''Bytes'', ''KB'', ''MB'', ''GB'']"

text \<open>\<open>Math.floor(Math.log(bytes) / Math.log(1024))\<close> for \<open>bytes\<close> at least 1.\<close>

function floor_log_1024 :: "nat \<Rightarrow> nat" where
  "floor_log_1024 b = (if b < 1024 then 0 else Suc (floor_log_1024 (b div 1024)))"
  by pat_completeness auto
termination
  by (relation "measure (\<lambda>b. b)") auto

text \<open>A natural number in decimal, as \<open>toString\<close> prints it.\<close>

definition digit :: "nat \<Rightarrow> char" where
  "digit d = ''0123456789'' ! d"

function show_nat :: "nat \<Rightarrow> string" where
  "show_nat n = (if n < 10 then [digit n] else show_nat (n div 10) @ [digit (n mod 10)])"
  by pat_completeness auto
termination
  by (relation "measure (\<lambda>n. n)") auto

text \<open>
  \<open>Math.round(x * 100) / 100\<close> printed, from \<open>h = Math.round(x * 100)\<close>: the number
  \<open>h / 100\<close> with no trailing zero and no decimal point when it is whole.
\<close>

definition show_hundredths :: "nat \<Rightarrow> string" where
  "show_hundredths h =
     (let w = h div 100; f = h mod 100 in
      if f = 0 then show_nat w
      else if f mod 10 = 0 then show_nat w @ ''.'' @ [digit (f div 10)]
      else show_nat w @ ''.'' @ [digit (f div 10), digit (f mod 10)])"

text \<open>\<open>Math.round(bytes / Math.pow(1024, i) * 100)\<close>: halves round up.\<close>

definition round_hundredths :: "nat \<Rightarrow> nat \<Rightarrow> nat" where
  "round_hundredths b i = (200 * b + 1024 ^ i) div (2 * 1024 ^ i)"

text \<open>\<open>sizes[i]\<close> in a string concatenation: past the end it is \<open>undefined\<close>.\<close>

definition sizes_at :: "nat \<Rightarrow> string" where
  "sizes_at i = (if i < length sizes then sizes ! i else ''undefined'')"

text \<open>
  The function as written: the test \<open>!bytes\<close> of line 158 comes first and is true of
  \<open>undefined\<close> and of 0; the test \<open>bytes === 0\<close> of line 160 comes after it.
\<close>

definition formatFileSize :: "nat option \<Rightarrow> string" where
  "formatFileSize arg =
     (case arg of
        None \<Rightarrow> ''Unknown''
      | Some b \<Rightarrow>
          if b = 0 then ''Unknown''
          else if b = 0 then ''0 Byte''
          else (let i = floor_log_1024 b in
                show_hundredths (round_hundredths b i) @ '' '' @ sizes_at i))"

text \<open>The unit the result ends with.\<close>

definition unit_of :: "nat \<Rightarrow> string" where
  "unit_of b = sizes_at (floor_log_1024 b)"

section \<open>Sample inputs\<close>

text \<open>Three files as a browser hands them over, and stores and networks that fail or answer.\<close>

definition a_png :: File where
  "a_png = \<lparr>fname = ''a.png'', ftype = ''image/png'', content = [137, 80, 78, 71]\<rparr>"

definition notes_txt :: File where
  "notes_txt = \<lparr>fname = ''notes.txt'', ftype = ''text/plain'', content = [104, 105]\<rparr>"

definition b_jpg :: File where
  "b_jpg = \<lparr>fname = ''b.jpg'', ftype = ''image/jpeg'', content = [255, 216]\<rparr>"

definition store_down :: "search_query \<Rightarrow> error + search_result" where
  "store_down q = Inl (StoreError ''unreachable'')"

text \<open>
  A store whose upload calls back with an error, and one that throws before any callback,
  as the client library does when it has no configuration.
\<close>

definition upload_down :: "upload_options \<Rightarrow> byte list \<Rightarrow> upload_outcome" where
  "upload_down opts buffer = CallbackError (StoreError ''quota exceeded'')"

definition upload_unconfigured :: "upload_options \<Rightarrow> byte list \<Rightarrow> upload_outcome" where
  "upload_unconfigured opts buffer = Thrown (Error ''Must supply api_key'')"




text \<open>A store object whose recorded original filename is the empty string, and one with a name.\<close>

definition unnamed_resource :: resource where
  "unnamed_resource =
     \<lparr>public_id = ''gallery/x1'', secure_url = ''https://res.example/gallery/x1.png'',
      width = Some 4, height = Some 3, format = Some ''png'', bytes = Some 10,
      created_at = ''2024-05-02T10:00:00Z'', original_filename = Some []\<rparr>"

definition named_resource :: resource where
  "named_resource =
     \<lparr>public_id = ''gallery/k7'', secure_url = ''https://res.example/gallery/k7.jpg'',
      width = Some 8, height = Some 6, format = Some ''jpg'', bytes = Some 1536,
      created_at = ''2024-05-01T09:00:00Z'', original_filename = Some ''Cat''\<rparr>"

definition store_two :: "search_query \<Rightarrow> error + search_result" where
  "store_two q = Inr \<lparr>resources = [unnamed_resource, named_resource], total_count = 2\<rparr>"

text \<open>A network on which every upload request is rejected, and one on which each is stored.\<close>

definition offline :: "File \<Rightarrow> descriptor reply" where
  "offline f = Rejected (NetworkError ''offline'')"

definition stored :: "File \<Rightarrow> descriptor reply" where
  "stored f =
     Ok \<lparr>public_id = ''gallery/'' @ fname f, secure_url = ''https://res.example/'' @ fname f,
         width = None, height = None, format = None, bytes = Some (length (content f)),
         created_at = ''2024-05-03T08:00:00Z''\<rparr>"

definition listing :: "resource list reply" where
  "listing = Ok [unnamed_resource, named_resource]"

definition cat_page :: page where
  "cat_page = initial_page\<lparr>images := map formatImage [unnamed_resource, named_resource],
                            loading := False, searchTerm := ''CAT''\<rparr>"

text \<open>
  A lower-casing for the samples: what \<open>toLowerCase\<close> does on ASCII text, \<open>A\<close> to \<open>Z\<close>
  (codes 65 to 90) moved 32 up and every other character kept.
\<close>

definition ascii_lower_char :: "char \<Rightarrow> char" where
  "ascii_lower_char c =
     (let n = of_char c :: nat in if 65 \<le> n \<and> n \<le> 90 then char_of (n + 32) else c)"

definition ascii_lower :: "string \<Rightarrow> string" where
  "ascii_lower s = map ascii_lower_char s"

definition idle_page :: page where
  "idle_page = initial_page\<lparr>images := map formatImage [unnamed_resource, named_resource],
                             loading := False\<rparr>"

section \<open>Properties of the endpoints\<close>

declare floor_log_1024.simps [simp del]
declare show_nat.simps [simp del]

text \<open>
  C8. A request to the list endpoint that carries no \<open>folder\<close> query parameter searches
  the folder \<open>gallery\<close>: the folder computed is \<open>gallery\<close> and the search the handler
  starts has the expression \<open>folder:gallery/*\<close>.
\<close>

theorem GET_folder_absent:
  "searchParams_get searchParams ''folder'' = None \<Longrightarrow>
     GET_folder searchParams = ''gallery'' \<and>
     hd (snd (GET execute searchParams)) =
       SearchExecute \<lparr>expression = ''folder:gallery/*'',
                      sort_by = (''created_at'', ''desc''), max_results = 500\<rparr>"
  by (simp add: GET_def GET_query_def GET_folder_def or_else_def Let_def split: sum.split)

theorem GET_folder_absent_witness:
  "searchParams_get [(''page'', ''2'')] ''folder'' = None \<and>
   GET_folder [(''page'', ''2'')] = ''gallery'' \<and>
   hd (snd (GET store_down [(''page'', ''2'')])) =
     SearchExecute \<lparr>expression = ''folder:gallery/*'',
                    sort_by = (''created_at'', ''desc''), max_results = 500\<rparr>"
proof -
  have h: "searchParams_get [(''page'', ''2'')] ''folder'' = None"
    by (simp add: searchParams_get_def)
  show ?thesis using h GET_folder_absent [OF h, of store_down] by simp
qed

text \<open>
  C10. A request to the list endpoint whose \<open>folder\<close> query parameter is present and
  is the empty string searches the folder \<open>gallery\<close> as well.
\<close>

theorem GET_folder_empty:
  "searchParams_get searchParams ''folder'' = Some [] \<Longrightarrow>
     GET_folder searchParams = ''gallery'' \<and>
     hd (snd (GET execute searchParams)) =
       SearchExecute \<lparr>expression = ''folder:gallery/*'',
                      sort_by = (''created_at'', ''desc''), max_results = 500\<rparr>"
  by (simp add: GET_def GET_query_def GET_folder_def or_else_def Let_def split: sum.split)

theorem GET_folder_empty_witness:
  "searchParams_get [(''folder'', [])] ''folder'' = Some [] \<and>
   GET_folder [(''folder'', [])] = ''gallery'' \<and>
   hd (snd (GET store_down [(''folder'', [])])) =
     SearchExecute \<lparr>expression = ''folder:gallery/*'',
                    sort_by = (''created_at'', ''desc''), max_results = 500\<rparr>"
proof -
  have h: "searchParams_get [(''folder'', [])] ''folder'' = Some []"
    by (simp add: searchParams_get_def)
  show ?thesis using h GET_folder_empty [OF h, of store_down] by simp
qed





text \<open>
  The same for every text part named \<open>file\<close> that \<open>formData.get\<close> finds: an empty one
  is answered 400, any other one 500, and the store is not called.
\<close>

lemma POST_text_part:
  "formData_get formData ''file'' = Some (StringValue s) \<Longrightarrow>
     fst (POST upload_stream (Inr formData)) =
       (if s = [] then \<lparr>status = 400, body = ErrorBody ''No file provided''\<rparr> else upload_failed)
     \<and> UploadStream opts buffer \<notin> set (snd (POST upload_stream (Inr formData)))"
  by (simp add: POST_def)

text \<open>
  C4. Whenever the upload endpoint calls the store's upload and that call fails with an
  error \<open>e\<close>, by throwing or through its callback, the response is status 500 with the
  body \<open>{error: 'Upload failed'}\<close>, the same for every \<open>e\<close>, and the handler's \<open>catch\<close>
  writes \<open>e\<close> to the server's console as the last thing it does; the only other line is
  the callback's own, when the error came through the callback.
\<close>

theorem POST_store_failure:
  assumes "UploadStream opts buffer \<in> set (snd (POST upload_stream request))"
      and "upload_stream opts buffer = Thrown e \<or> upload_stream opts buffer = CallbackError e"
  shows "fst (POST upload_stream request) = \<lparr>status = 500, body = ErrorBody ''Upload failed''\<rparr>
         \<and> snd (POST upload_stream request) =
             [UploadStream opts buffer]
             @ (case upload_stream opts buffer of
                  CallbackError e' \<Rightarrow> [ConsoleError ''Cloudinary error:'' e']
                | _ \<Rightarrow> [])
             @ [ConsoleError ''Upload error:'' e]"
proof -
  from assms(1) obtain formData f where
    req: "request = Inr formData" and get: "formData_get formData ''file'' = Some (FileValue f)"
    and ob: "opts = POST_options" "buffer = content f"
    by (auto simp: POST_def upload_failed_def Let_def
             split: sum.splits option.splits form_value.splits if_splits upload_outcome.splits)
  from assms(2) show ?thesis
  proof
    assume "upload_stream opts buffer = Thrown e"
    then show ?thesis
      using req get ob by (simp add: POST_def upload_failed_def)
  next
    assume "upload_stream opts buffer = CallbackError e"
    then show ?thesis
      using req get ob by (simp add: POST_def upload_failed_def)
  qed
qed

theorem POST_store_failure_witness:
  "UploadStream POST_options (content a_png)
     \<in> set (snd (POST upload_down (Inr [(''file'', FileValue a_png)]))) \<and>
   upload_down POST_options (content a_png) = CallbackError (StoreError ''quota exceeded'') \<and>
   POST upload_down (Inr [(''file'', FileValue a_png)]) =
     (\<lparr>status = 500, body = ErrorBody ''Upload failed''\<rparr>,
      [UploadStream POST_options (content a_png),
       ConsoleError ''Cloudinary error:'' (StoreError ''quota exceeded''),
       ConsoleError ''Upload error:'' (StoreError ''quota exceeded'')]) \<and>
   UploadStream POST_options (content a_png)
     \<in> set (snd (POST upload_unconfigured (Inr [(''file'', FileValue a_png)]))) \<and>
   upload_unconfigured POST_options (content a_png) = Thrown (Error ''Must supply api_key'') \<and>
   POST upload_unconfigured (Inr [(''file'', FileValue a_png)]) =
     (\<lparr>status = 500, body = ErrorBody ''Upload failed''\<rparr>,
      [UploadStream POST_options (content a_png),
       ConsoleError ''Upload error:'' (Error ''Must supply api_key'')])"
proof -
  have h1: "UploadStream POST_options (content a_png)
     \<in> set (snd (POST upload_down (Inr [(''file'', FileValue a_png)])))"
    by (simp add: POST_def formData_get_def upload_down_def)
  have h2: "upload_down POST_options (content a_png) = CallbackError (StoreError ''quota exceeded'')"
    by (simp add: upload_down_def)
  have k1: "UploadStream POST_options (content a_png)
     \<in> set (snd (POST upload_unconfigured (Inr [(''file'', FileValue a_png)])))"
    by (simp add: POST_def formData_get_def upload_unconfigured_def)
  have k2: "upload_unconfigured POST_options (content a_png) = Thrown (Error ''Must supply api_key'')"
    by (simp add: upload_unconfigured_def)
  from POST_store_failure [OF h1 disjI2 [OF h2]]
  have 1: "POST upload_down (Inr [(''file'', FileValue a_png)]) =
     (\<lparr>status = 500, body = ErrorBody ''Upload failed''\<rparr>,
      [UploadStream POST_options (content a_png),
       ConsoleError ''Cloudinary error:'' (StoreError ''quota exceeded''),
       ConsoleError ''Upload error:'' (StoreError ''quota exceeded'')])"
    unfolding h2 by (simp add: prod_eq_iff)
  from POST_store_failure [OF k1 disjI1 [OF k2]]
  have 2: "POST upload_unconfigured (Inr [(''file'', FileValue a_png)]) =
     (\<lparr>status = 500, body = ErrorBody ''Upload failed''\<rparr>,
      [UploadStream POST_options (content a_png),
       ConsoleError ''Upload error:'' (Error ''Must supply api_key'')])"
    unfolding k2 by (simp add: prod_eq_iff)
  from h1 h2 1 k1 k2 2 show ?thesis by blast
qed

text \<open>
  C5, as the code has it. Every request to the list endpoint starts one store search: all
  objects under \<open><folder>/\<close>, newest first, at most 500 results. When the search succeeds
  the response is 200 with the store's \<open>total_count\<close> and one descriptor per resource, in
  order and with the same \<open>public_id\<close>, whose \<open>original_filename\<close> is the store's when that is
  present and not the empty string, and the \<open>public_id\<close> otherwise.
\<close>

theorem GET_search_and_images:
  "hd (snd (GET execute searchParams)) =
     SearchExecute \<lparr>expression = ''folder:'' @ GET_folder searchParams @ ''/*'',
                    sort_by = (''created_at'', ''desc''), max_results = 500\<rparr>
   \<and> (\<forall>result.
         execute \<lparr>expression = ''folder:'' @ GET_folder searchParams @ ''/*'',
                  sort_by = (''created_at'', ''desc''), max_results = 500\<rparr> = Inr result
         \<longrightarrow> (\<exists>imgs. fst (GET execute searchParams) =
                        \<lparr>status = 200, body = ImagesBody imgs (total_count result)\<rparr>
                 \<and> map public_id imgs = map public_id (resources result)
                 \<and> map original_filename imgs =
                     map (\<lambda>r. case original_filename r of
                                  None \<Rightarrow> Some (public_id r)
                                | Some n \<Rightarrow> if n = [] then Some (public_id r) else Some n)
                       (resources result)))"
  by (auto simp: GET_def GET_query_def GET_image_def or_else_def Let_def
           split: sum.splits option.splits)

theorem GET_search_and_images_witness:
  "store_two \<lparr>expression = ''folder:'' @ GET_folder [(''folder'', ''pets'')] @ ''/*'',
               sort_by = (''created_at'', ''desc''), max_results = 500\<rparr>
     = Inr \<lparr>resources = [unnamed_resource, named_resource], total_count = 2\<rparr> \<and>
   hd (snd (GET store_two [(''folder'', ''pets'')])) =
     SearchExecute \<lparr>expression = ''folder:pets/*'',
                    sort_by = (''created_at'', ''desc''), max_results = 500\<rparr> \<and>
   status (fst (GET store_two [(''folder'', ''pets'')])) = 200 \<and>
   map original_filename (body_images (body (fst (GET store_two [(''folder'', ''pets'')]))))
     = [Some ''gallery/x1'', Some ''Cat'']"
proof -
  have h: "store_two \<lparr>expression = ''folder:'' @ GET_folder [(''folder'', ''pets'')] @ ''/*'',
               sort_by = (''created_at'', ''desc''), max_results = 500\<rparr>
     = Inr \<lparr>resources = [unnamed_resource, named_resource], total_count = 2\<rparr>"
    by (simp add: store_two_def)
  have f: "GET_folder [(''folder'', ''pets'')] = ''pets''"
    by (simp add: GET_folder_def searchParams_get_def or_else_def)
  from GET_search_and_images [of store_two "[(''folder'', ''pets'')]"] h
  obtain imgs where
    1: "hd (snd (GET store_two [(''folder'', ''pets'')])) =
     SearchExecute \<lparr>expression = ''folder:'' @ GET_folder [(''folder'', ''pets'')] @ ''/*'',
                    sort_by = (''created_at'', ''desc''), max_results = 500\<rparr>"
    and 2: "fst (GET store_two [(''folder'', ''pets'')]) =
              \<lparr>status = 200, body = ImagesBody imgs 2\<rparr>"
    and 3: "map original_filename imgs =
              map (\<lambda>r. case original_filename r of
                                  None \<Rightarrow> Some (public_id r)
                                | Some n \<Rightarrow> if n = [] then Some (public_id r) else Some n)
                [unnamed_resource, named_resource]"
    by fastforce
  have 4: "map original_filename imgs = [Some ''gallery/x1'', Some ''Cat'']"
    unfolding 3 by (simp add: unnamed_resource_def named_resource_def)
  show ?thesis
    using h 1 2 4 unfolding f by (simp add: body_images_def)
qed

text \<open>
  C5 as it is written takes the store's \<open>original_filename\<close> whenever it is present. A
  resource whose \<open>original_filename\<close> is the empty string is listed under its \<open>public_id\<close>.
\<close>

theorem GET_empty_original_filename:
  "original_filename unnamed_resource = Some [] \<and>
   body (fst (GET store_two [])) = ImagesBody [GET_image unnamed_resource, GET_image named_resource] 2 \<and>
   original_filename (GET_image unnamed_resource) = Some ''gallery/x1'' \<and>
   original_filename (GET_image unnamed_resource) \<noteq> original_filename unnamed_resource"
  by (simp add: GET_def store_two_def GET_image_def unnamed_resource_def or_else_def)

section \<open>Properties of the gallery page\<close>

subsection \<open>Strings, the upload loop and \<open>Promise.all\<close>\<close>

lemma startsWith_iff: "startsWith s t \<longleftrightarrow> (\<exists>v. s = t @ v)"
  by (induction s t rule: startsWith.induct) auto

lemma includes_str_iff: "includes_str s t \<longleftrightarrow> (\<exists>u v. s = u @ t @ v)"
proof (induction s)
  case Nil
  show ?case by simp
next
  case (Cons c s)
  show ?case
  proof
    assume "includes_str (c # s) t"
    then consider "startsWith (c # s) t" | "includes_str s t" by auto
    then show "\<exists>u v. c # s = u @ t @ v"
    proof cases
      case 1
      then obtain v where "c # s = t @ v" by (auto simp: startsWith_iff)
      then have "c # s = [] @ t @ v" by simp
      then show ?thesis by blast
    next
      case 2
      then obtain u v where "s = u @ t @ v" using Cons.IH by blast
      then have "c # s = (c # u) @ t @ v" by simp
      then show ?thesis by blast
    qed
  next
    assume "\<exists>u v. c # s = u @ t @ v"
    then obtain u v where uv: "c # s = u @ t @ v" by blast
    show "includes_str (c # s) t"
    proof (cases u)
      case Nil
      with uv have "startsWith (c # s) t" by (auto simp: startsWith_iff)
      then show ?thesis by simp
    next
      case (Cons d u')
      with uv have "s = u' @ t @ v" by simp
      then have "includes_str s t" using Cons.IH by blast
      then show ?thesis by simp
    qed
  qed
qed

lemma includes_str_empty: "includes_str s []"
  by (induction s) auto

lemma upload_loop_eq:
  "upload_loop net fs =
     (map (uploadToCloudinary net) (filter (\<lambda>f. startsWith (ftype f) ''image/'') fs),
      map UploadRequest (filter (\<lambda>f. startsWith (ftype f) ''image/'') fs))"
  by (induction fs) (simp_all del: startsWith.simps)

lemma upload_calls_append: "upload_calls (xs @ ys) = upload_calls xs @ upload_calls ys"
  by (induction xs rule: upload_calls.induct) simp_all

lemma upload_calls_requests: "upload_calls (map UploadRequest fs) = fs"
  by (induction fs) simp_all

lemma upload_calls_fetchImages: "upload_calls (snd (fetchImages net st)) = []"
  by (simp add: fetchImages_def Let_def split: reply.split)

lemma fetchImages_requests: "list_ex is_fetch (snd (fetchImages net st))"
  by (simp add: fetchImages_def Let_def split: reply.split)

lemma no_fetch_in_requests: "\<not> list_ex is_fetch (map UploadRequest fs)"
  by (induction fs) simp_all

lemma Promise_all_Inr:
  "(\<forall>p \<in> set ps. \<exists>v. p = Inr v) \<Longrightarrow> \<exists>vs. Promise_all ps = Inr vs"
proof (induction ps)
  case Nil
  show ?case by simp
next
  case (Cons p ps)
  then obtain v where "p = Inr v" by auto
  moreover from Cons obtain vs where "Promise_all ps = Inr vs" by auto
  ultimately show ?case by simp
qed

lemma Promise_all_Inl:
  "p \<in> set ps \<Longrightarrow> p = Inl e' \<Longrightarrow> \<exists>e. Promise_all ps = Inl e"
proof (induction ps rule: Promise_all.induct)
  case 1
  then show ?case by simp
next
  case (2 e ps)
  show ?case by simp
next
  case (3 v ps)
  then have "p \<in> set ps" by auto
  then obtain e where "Promise_all ps = Inl e" using 3 by blast
  then show ?case by simp
qed

lemma uploadToCloudinary_Ok: "net f = Ok d \<Longrightarrow> \<exists>v. uploadToCloudinary net f = Inr v"
  by (simp add: uploadToCloudinary_def)

lemma uploadToCloudinary_fails:
  "\<forall>d. net f \<noteq> Ok d \<Longrightarrow> \<exists>e. uploadToCloudinary net f = Inl e"
  by (cases "net f") (simp_all add: uploadToCloudinary_def)


text \<open>
  C9. Called with \<open>null\<close> or with an empty file list, \<open>handleFileUpload\<close> returns at
  once: the page state is the one it was given, every flag and the image set included,
  and the trace is empty, so no upload request and no list request is sent.
\<close>

theorem handleFileUpload_nothing:
  "handleFileUpload upload_net list_net None st = (st, []) \<and>
   handleFileUpload upload_net list_net (Some []) st = (st, [])"
  by (simp add: handleFileUpload_def)

text \<open>
  C3. Whatever function \<open>toLowerCase\<close> is, the images the gallery shows are exactly the
  entries of the image set, in their order, whose \<open>originalName\<close> or \<open>publicId\<close>,
  lower-cased, has the lower-cased search term as a substring; with the empty search term,
  which \<open>toLowerCase\<close> leaves empty, they are the whole image set.
\<close>

theorem filteredImages_exact:
  "filteredImages toLowerCase st =
     filter (\<lambda>image.
        (\<exists>u v. toLowerCase (originalName image) = u @ toLowerCase (searchTerm st) @ v) \<or>
        (\<exists>u v. toLowerCase (publicId image) = u @ toLowerCase (searchTerm st) @ v))
       (images st)
   \<and> (toLowerCase [] = [] \<and> searchTerm st = [] \<longrightarrow> filteredImages toLowerCase st = images st)"
  by (simp add: filteredImages_def includes_str_iff [symmetric] includes_str_empty)

text \<open>
  On the sample pages: the empty term shows both images; the term \<open>CAT\<close> shows the image
  named \<open>Cat\<close>, whose lower-cased name is the lower-cased term, and drops the image named
  \<open>x1\<close> with the identifier \<open>gallery/x1\<close>.
\<close>

theorem filteredImages_exact_witness:
  "ascii_lower [] = [] \<and> searchTerm idle_page = [] \<and>
   filteredImages ascii_lower idle_page = images idle_page \<and>
   length (images idle_page) = 2 \<and>
   searchTerm cat_page = ''CAT'' \<and>
   images cat_page = [formatImage unnamed_resource, formatImage named_resource] \<and>
   originalName (formatImage named_resource) = ''Cat'' \<and>
   filteredImages ascii_lower cat_page = [formatImage named_resource]"
proof -
  have l: "ascii_lower [] = []"
    by (simp add: ascii_lower_def)
  have h: "searchTerm idle_page = []"
    by (simp add: idle_page_def initial_page_def)
  have n: "length (images idle_page) = 2"
    by (simp add: idle_page_def initial_page_def)
  have t: "searchTerm cat_page = ''CAT''"
    by (simp add: cat_page_def initial_page_def)
  have i: "images cat_page = [formatImage unnamed_resource, formatImage named_resource]"
    by (simp add: cat_page_def initial_page_def)
  have o: "originalName (formatImage named_resource) = ''Cat''"
    by (simp add: formatImage_def named_resource_def or_else_def)
  have lt: "ascii_lower ''CAT'' = ''cat''"
    by code_simp
  have named: "ascii_lower (originalName (formatImage named_resource)) = [] @ ''cat'' @ []"
    by code_simp
  have un1: "\<not> includes_str (ascii_lower (originalName (formatImage unnamed_resource))) ''cat''"
    by code_simp
  have un2: "\<not> includes_str (ascii_lower (publicId (formatImage unnamed_resource))) ''cat''"
    by code_simp
  from filteredImages_exact [of ascii_lower idle_page] l h
  have 1: "filteredImages ascii_lower idle_page = images idle_page"
    by blast
  from filteredImages_exact [of ascii_lower cat_page]
  have "filteredImages ascii_lower cat_page =
     filter (\<lambda>image.
        (\<exists>u v. ascii_lower (originalName image) = u @ ''cat'' @ v) \<or>
        (\<exists>u v. ascii_lower (publicId image) = u @ ''cat'' @ v))
       [formatImage unnamed_resource, formatImage named_resource]"
    unfolding t i lt by blast
  also have "\<dots> = [formatImage named_resource]"
    using named un1 un2 by (simp add: includes_str_iff) blast
  finally have 2: "filteredImages ascii_lower cat_page = [formatImage named_resource]" .
  from l h 1 n t i o 2 show ?thesis by blast
qed

text \<open>
  C7. The upload requests \<open>handleFileUpload\<close> sends are exactly the selected files whose
  declared type starts with \<open>image/\<close>, one request each and in their order; of three
  files of which the middle one has the type \<open>text/plain\<close> and the others are images,
  two are sent, also when the three files are dropped on the page.
\<close>

theorem handleFileUpload_calls:
  "upload_calls (snd (handleFileUpload upload_net list_net files st)) =
     (case files of None \<Rightarrow> [] | Some fs \<Rightarrow> filter (\<lambda>f. startsWith (ftype f) ''image/'') fs)
   \<and> (\<forall>a b c. files = Some [a, b, c] \<and> startsWith (ftype a) ''image/''
          \<and> ftype b = ''text/plain'' \<and> startsWith (ftype c) ''image/''
        \<longrightarrow> length (upload_calls (snd (handleFileUpload upload_net list_net files st))) = 2)
   \<and> (\<forall>a b c. startsWith (ftype a) ''image/''
          \<and> ftype b = ''text/plain'' \<and> startsWith (ftype c) ''image/''
        \<longrightarrow> length (upload_calls (snd (handleDrop upload_net list_net [a, b, c] st))) = 2)"
proof -
  have main: "upload_calls (snd (handleFileUpload upload_net list_net files st)) =
     (case files of None \<Rightarrow> [] | Some fs \<Rightarrow> filter (\<lambda>f. startsWith (ftype f) ''image/'') fs)"
  proof (cases files)
    case None
    then show ?thesis by (simp add: handleFileUpload_def)
  next
    case (Some fs)
    show ?thesis
    proof (cases "Promise_all (map (uploadToCloudinary upload_net)
                    (filter (\<lambda>f. startsWith (ftype f) ''image/'') fs))")
      case (Inl e)
      with Some show ?thesis
        by (simp add: handleFileUpload_def upload_loop_eq upload_calls_append
              upload_calls_requests del: startsWith.simps)
    next
      case (Inr vs)
      with Some show ?thesis
        by (simp add: handleFileUpload_def upload_loop_eq upload_calls_append
              upload_calls_requests upload_calls_fetchImages split_beta Let_def
              del: startsWith.simps)
    qed
  qed
  have drop: "upload_calls (snd (handleDrop upload_net list_net fs st)) =
      upload_calls (snd (handleFileUpload upload_net list_net (Some fs)
                           (st\<lparr>dragActive := False\<rparr>)))" for fs
    by (simp add: handleDrop_def split_beta)
  have main': "upload_calls (snd (handleFileUpload upload_net list_net (Some fs) st')) =
      filter (\<lambda>f. startsWith (ftype f) ''image/'') fs" for fs st'
  proof (cases "Promise_all (map (uploadToCloudinary upload_net)
                    (filter (\<lambda>f. startsWith (ftype f) ''image/'') fs))")
    case (Inl e)
    then show ?thesis
      by (simp add: handleFileUpload_def upload_loop_eq upload_calls_append
            upload_calls_requests del: startsWith.simps)
  next
    case (Inr vs)
    then show ?thesis
      by (simp add: handleFileUpload_def upload_loop_eq upload_calls_append
            upload_calls_requests upload_calls_fetchImages split_beta Let_def
            del: startsWith.simps)
  qed
  show ?thesis
    unfolding main drop main' by auto
qed

theorem handleFileUpload_calls_witness:
  "Some [a_png, notes_txt, b_jpg] = Some [a_png, notes_txt, b_jpg] \<and>
   startsWith (ftype a_png) ''image/'' \<and> ftype notes_txt = ''text/plain'' \<and>
   startsWith (ftype b_jpg) ''image/'' \<and>
   upload_calls (snd (handleFileUpload stored listing (Some [a_png, notes_txt, b_jpg]) idle_page))
     = [a_png, b_jpg] \<and>
   length (upload_calls
     (snd (handleFileUpload stored listing (Some [a_png, notes_txt, b_jpg]) idle_page))) = 2 \<and>
   length (upload_calls (snd (handleDrop stored listing [a_png, notes_txt, b_jpg] idle_page))) = 2"
proof -
  have h: "startsWith (ftype a_png) ''image/'' \<and> ftype notes_txt = ''text/plain'' \<and>
           startsWith (ftype b_jpg) ''image/''"
    by (simp add: a_png_def notes_txt_def b_jpg_def)
  have n: "\<not> startsWith (ftype notes_txt) ''image/''"
    by (simp add: notes_txt_def)
  show ?thesis
    using h n handleFileUpload_calls [of stored listing "Some [a_png, notes_txt, b_jpg]" idle_page]
    by simp
qed

text \<open>
  C2, as the code has it. For a non-empty batch: when every upload that was sent
  succeeds, \<open>fetchImages\<close> runs after the upload requests, it sends the list request,
  and \<open>uploading\<close> is cleared only after it; when an upload that was sent fails,
  the error is logged, one alert is raised and \<open>uploading\<close> is cleared, and no list
  request is sent.
\<close>

theorem handleFileUpload_settle:
  assumes "fs \<noteq> []"
  shows
   "((\<forall>f \<in> set fs. startsWith (ftype f) ''image/'' \<longrightarrow> (\<exists>d. upload_net f = Ok d)) \<longrightarrow>
       handleFileUpload upload_net list_net (Some fs) st =
         ((fst (fetchImages list_net (st\<lparr>uploading := True\<rparr>)))\<lparr>uploading := False\<rparr>,
          [SetUploading True]
            @ map UploadRequest (filter (\<lambda>f. startsWith (ftype f) ''image/'') fs)
            @ snd (fetchImages list_net (st\<lparr>uploading := True\<rparr>))
            @ [SetUploading False])
       \<and> list_ex is_fetch (snd (fetchImages list_net (st\<lparr>uploading := True\<rparr>))))
    \<and> ((\<exists>f \<in> set fs. startsWith (ftype f) ''image/'' \<and> (\<forall>d. upload_net f \<noteq> Ok d)) \<longrightarrow>
       (\<exists>e. handleFileUpload upload_net list_net (Some fs) st =
         (st\<lparr>uploading := False\<rparr>,
          [SetUploading True]
            @ map UploadRequest (filter (\<lambda>f. startsWith (ftype f) ''image/'') fs)
            @ [ConsoleErr ''Upload error:'' e,
               Alert ''Upload failed. Please try again.'',
               SetUploading False]))
       \<and> \<not> list_ex is_fetch (snd (handleFileUpload upload_net list_net (Some fs) st)))"
proof (intro conjI impI)
  let ?sel = "filter (\<lambda>f. startsWith (ftype f) ''image/'') fs"
  let ?ps = "map (uploadToCloudinary upload_net) ?sel"
  {
    assume ok: "\<forall>f \<in> set fs. startsWith (ftype f) ''image/'' \<longrightarrow> (\<exists>d. upload_net f = Ok d)"
    have "\<forall>p \<in> set ?ps. \<exists>v. p = Inr v"
      using ok uploadToCloudinary_Ok by fastforce
    then obtain vs where "Promise_all ?ps = Inr vs"
      using Promise_all_Inr by blast
    then show "handleFileUpload upload_net list_net (Some fs) st =
         ((fst (fetchImages list_net (st\<lparr>uploading := True\<rparr>)))\<lparr>uploading := False\<rparr>,
          [SetUploading True] @ map UploadRequest ?sel
            @ snd (fetchImages list_net (st\<lparr>uploading := True\<rparr>))
            @ [SetUploading False])"
      using assms
      by (simp add: handleFileUpload_def upload_loop_eq split_beta Let_def
            del: startsWith.simps)
    show "list_ex is_fetch (snd (fetchImages list_net (st\<lparr>uploading := True\<rparr>)))"
      by (rule fetchImages_requests)
  }
  {
    assume bad: "\<exists>f \<in> set fs. startsWith (ftype f) ''image/'' \<and> (\<forall>d. upload_net f \<noteq> Ok d)"
    then obtain f where f: "f \<in> set fs" "startsWith (ftype f) ''image/''"
        "\<forall>d. upload_net f \<noteq> Ok d"
      by blast
    then obtain e' where "uploadToCloudinary upload_net f = Inl e'"
      using uploadToCloudinary_fails by blast
    moreover have "uploadToCloudinary upload_net f \<in> set ?ps"
      using f by simp
    ultimately obtain e where e: "Promise_all ?ps = Inl e"
      using Promise_all_Inl by blast
    have eq: "handleFileUpload upload_net list_net (Some fs) st =
         (st\<lparr>uploading := False\<rparr>,
          [SetUploading True] @ map UploadRequest ?sel
            @ [ConsoleErr ''Upload error:'' e,
               Alert ''Upload failed. Please try again.'',
               SetUploading False])"
      using assms e
      by (simp add: handleFileUpload_def upload_loop_eq split_beta Let_def
            del: startsWith.simps)
    then show "\<exists>e. handleFileUpload upload_net list_net (Some fs) st =
         (st\<lparr>uploading := False\<rparr>,
          [SetUploading True] @ map UploadRequest ?sel
            @ [ConsoleErr ''Upload error:'' e,
               Alert ''Upload failed. Please try again.'',
               SetUploading False])"
      by blast
    show "\<not> list_ex is_fetch (snd (handleFileUpload upload_net list_net (Some fs) st))"
      unfolding eq by (simp add: no_fetch_in_requests del: startsWith.simps)
  }
qed

theorem handleFileUpload_settle_witness:
  "[a_png, notes_txt, b_jpg] \<noteq> [] \<and>
   snd (handleFileUpload stored listing (Some [a_png, notes_txt, b_jpg]) idle_page) =
     [SetUploading True, UploadRequest a_png, UploadRequest b_jpg,
      SetLoading True, FetchImagesRequest ''/api/images?folder=gallery'',
      SetImages (map formatImage [unnamed_resource, named_resource]),
      SetLoading False, SetUploading False] \<and>
   snd (handleFileUpload offline listing (Some [a_png, notes_txt, b_jpg]) idle_page) =
     [SetUploading True, UploadRequest a_png, UploadRequest b_jpg,
      ConsoleErr ''Upload error:'' (NetworkError ''offline''),
      Alert ''Upload failed. Please try again.'', SetUploading False]"
proof -
  have ne: "[a_png, notes_txt, b_jpg] \<noteq> []" by simp
  have ok: "\<forall>f \<in> set [a_png, notes_txt, b_jpg].
              startsWith (ftype f) ''image/'' \<longrightarrow> (\<exists>d. stored f = Ok d)"
    by (simp add: stored_def)
  have bad: "\<exists>f \<in> set [a_png, notes_txt, b_jpg].
               startsWith (ftype f) ''image/'' \<and> (\<forall>d. offline f \<noteq> Ok d)"
    by (simp add: offline_def a_png_def)
  have sel: "filter (\<lambda>f. startsWith (ftype f) ''image/'') [a_png, notes_txt, b_jpg]
               = [a_png, b_jpg]"
    by (simp add: a_png_def notes_txt_def b_jpg_def)
  have fi: "snd (fetchImages listing (idle_page\<lparr>uploading := True\<rparr>)) =
     [SetLoading True, FetchImagesRequest ''/api/images?folder=gallery'',
      SetImages (map formatImage [unnamed_resource, named_resource]),
      SetLoading False]"
    by (simp add: fetchImages_def listing_def Let_def)
  have up: "uploadToCloudinary offline a_png = Inl (NetworkError ''offline'')"
    by (simp add: uploadToCloudinary_def offline_def)
  from handleFileUpload_settle [OF ne, of stored listing idle_page] ok
  have 1: "snd (handleFileUpload stored listing (Some [a_png, notes_txt, b_jpg]) idle_page) =
     [SetUploading True, UploadRequest a_png, UploadRequest b_jpg,
      SetLoading True, FetchImagesRequest ''/api/images?folder=gallery'',
      SetImages (map formatImage [unnamed_resource, named_resource]),
      SetLoading False, SetUploading False]"
    unfolding sel fi by simp
  from handleFileUpload_settle [OF ne, of offline listing idle_page] bad
  obtain e where
    "handleFileUpload offline listing (Some [a_png, notes_txt, b_jpg]) idle_page =
       (idle_page\<lparr>uploading := False\<rparr>,
        [SetUploading True] @ map UploadRequest [a_png, b_jpg]
          @ [ConsoleErr ''Upload error:'' e,
             Alert ''Upload failed. Please try again.'', SetUploading False])"
    unfolding sel by blast
  moreover have "snd (handleFileUpload offline listing (Some [a_png, notes_txt, b_jpg]) idle_page)
     = [SetUploading True, UploadRequest a_png, UploadRequest b_jpg,
      ConsoleErr ''Upload error:'' (NetworkError ''offline''),
      Alert ''Upload failed. Please try again.'', SetUploading False]"
    by (simp add: handleFileUpload_def a_png_def notes_txt_def b_jpg_def offline_def
          uploadToCloudinary_def)
  ultimately show ?thesis using ne 1 by simp
qed

text \<open>
  C2 as it is written asks for the list request after a failed upload too. With one image
  and the network down the trace has none.
\<close>

theorem handleFileUpload_no_refresh_after_failure:
  "\<not> list_ex is_fetch (snd (handleFileUpload offline listing (Some [a_png]) idle_page)) \<and>
   snd (handleFileUpload offline listing (Some [a_png]) idle_page) =
     [SetUploading True, UploadRequest a_png,
      ConsoleErr ''Upload error:'' (NetworkError ''offline''),
      Alert ''Upload failed. Please try again.'', SetUploading False]"
  by (simp add: handleFileUpload_def a_png_def offline_def uploadToCloudinary_def)

subsection \<open>\<open>formatFileSize\<close>\<close>

text \<open>
  C1, at zero bytes. \<open>formatFileSize(0)\<close> returns \<open>Unknown\<close> and not \<open>0 Byte\<close>: the
  test \<open>!bytes\<close> of line 158 is true of 0 and returns first, so the test
  \<open>bytes === 0\<close> of line 160 is never reached.
\<close>

theorem formatFileSize_zero:
  "formatFileSize (Some 0) = ''Unknown'' \<and> formatFileSize (Some 0) \<noteq> ''0 Byte''"
  by (simp add: formatFileSize_def)

text \<open>
  The other byte counts. \<open>floor_log_1024\<close> is the floor of the logarithm to
  base 1024; from 1 byte up to \<open>1024 ^ 4 - 1\<close> the result is the rounded value, a space and
  the unit at that index of \<open>sizes\<close>; 1536 bytes print as \<open>1.5 KB\<close>; from \<open>1024 ^ 4\<close>
  on the index is past the end of \<open>sizes\<close>.
\<close>

lemma floor_log_1024_bounds:
  "0 < b \<Longrightarrow> 1024 ^ floor_log_1024 b \<le> b \<and> b < 1024 ^ Suc (floor_log_1024 b)"
proof (induction b rule: floor_log_1024.induct)
  case (1 b)
  show ?case
  proof (cases "b < 1024")
    case True
    with 1 show ?thesis by (simp add: floor_log_1024.simps)
  next
    case False
    then have pos: "0 < b div 1024" by simp
    from 1(1) [OF False pos]
    have lo: "1024 ^ floor_log_1024 (b div 1024) \<le> b div 1024"
      and hi: "b div 1024 < 1024 ^ Suc (floor_log_1024 (b div 1024))"
      by simp_all
    have eq: "floor_log_1024 b = Suc (floor_log_1024 (b div 1024))"
      using False by (subst floor_log_1024.simps) simp
    have "1024 * 1024 ^ floor_log_1024 (b div 1024) \<le> 1024 * (b div 1024)"
      using lo by simp
    also have "\<dots> \<le> b" by simp
    finally have l: "1024 ^ floor_log_1024 b \<le> b" by (simp add: eq)
    have "b < 1024 * Suc (b div 1024)"
      using dividend_less_times_div [of 1024 b] by simp
    also have "\<dots> \<le> 1024 * 1024 ^ Suc (floor_log_1024 (b div 1024))"
      using hi by (simp only: Suc_le_eq [symmetric] mult_le_mono2)
    finally have u: "b < 1024 ^ Suc (floor_log_1024 b)" by (simp add: eq)
    from l u show ?thesis by blast
  qed
qed

lemma floor_log_1024_unique:
  "1024 ^ i \<le> b \<Longrightarrow> b < 1024 ^ Suc i \<Longrightarrow> floor_log_1024 b = i"
proof -
  assume lo: "1024 ^ i \<le> b" and hi: "b < 1024 ^ Suc i"
  then have pos: "0 < b" by (metis less_le_trans zero_less_numeral zero_less_power)
  let ?j = "floor_log_1024 b"
  from floor_log_1024_bounds [OF pos]
  have jl: "1024 ^ ?j \<le> b" and jh: "b < 1024 ^ Suc ?j" by simp_all
  have "(1024::nat) ^ i < 1024 ^ Suc ?j" using lo jh by simp
  then have a: "i < Suc ?j" by (simp only: power_strict_increasing_iff [of 1024] semiring_norm)
  have "(1024::nat) ^ ?j < 1024 ^ Suc i" using jl hi by simp
  then have b: "?j < Suc i" by (simp only: power_strict_increasing_iff [of 1024] semiring_norm)
  from a b show ?thesis by simp
qed

lemma formatFileSize_unit:
  assumes "0 < b" and "b < 1024 ^ 4"
  shows "formatFileSize (Some b) =
           show_hundredths (round_hundredths b (floor_log_1024 b)) @ '' '' @
           sizes ! floor_log_1024 b"
    and "floor_log_1024 b < length sizes"
proof -
  have "(1024::nat) ^ floor_log_1024 b < 1024 ^ 4"
    using floor_log_1024_bounds [OF assms(1)] assms(2) by simp
  then have "floor_log_1024 b < 4"
    by (simp only: power_strict_increasing_iff [of 1024] semiring_norm)
  then show "floor_log_1024 b < length sizes" by (simp add: sizes_def)
  then show "formatFileSize (Some b) =
           show_hundredths (round_hundredths b (floor_log_1024 b)) @ '' '' @
           sizes ! floor_log_1024 b"
    using assms(1) by (simp add: formatFileSize_def sizes_at_def Let_def)
qed

lemma show_nat_digit: "n < 10 \<Longrightarrow> show_nat n = [digit n]"
  by (subst show_nat.simps) simp

lemma formatFileSize_1536: "formatFileSize (Some 1536) = ''1.5 KB''"
proof -
  have i: "floor_log_1024 1536 = 1"
    by (rule floor_log_1024_unique) simp_all
  have r: "round_hundredths 1536 1 = 150"
    by (simp add: round_hundredths_def)
  have s: "show_hundredths 150 = ''1.5''"
    by (simp add: show_hundredths_def show_nat_digit digit_def)
  have u: "sizes_at 1 = ''KB''"
    by (simp add: sizes_at_def sizes_def)
  have "formatFileSize (Some 1536) =
          show_hundredths (round_hundredths 1536 (floor_log_1024 1536)) @ '' '' @
          sizes_at (floor_log_1024 1536)"
    by (simp add: formatFileSize_def Let_def)
  then show ?thesis
    unfolding i r s u by simp
qed

lemma formatFileSize_past_GB: "formatFileSize (Some (1024 ^ 4)) = ''1 undefined''"
proof -
  have i: "floor_log_1024 (1024 ^ 4) = 4"
    by (rule floor_log_1024_unique) simp_all
  have r: "round_hundredths (1024 ^ 4) 4 = 100"
    by (simp add: round_hundredths_def)
  have s: "show_hundredths 100 = ''1''"
    by (simp add: show_hundredths_def show_nat_digit digit_def)
  have u: "sizes_at 4 = ''undefined''"
    by (simp add: sizes_at_def sizes_def)
  have "formatFileSize (Some (1024 ^ 4)) =
          show_hundredths (round_hundredths (1024 ^ 4) (floor_log_1024 (1024 ^ 4))) @ '' '' @
          sizes_at (floor_log_1024 (1024 ^ 4))"
    by (simp add: formatFileSize_def Let_def)
  then show ?thesis
    unfolding i r s u by simp
qed

end
